theory Spec2Isabelle
  imports Main
begin

section \<open>JavaScript values\<close>

text \<open>
  Values whose TypeScript type is \<open>unknown\<close> or \<open>any\<close> (a caught error, a result row, a
  chart option). The type \<open>'n\<close> stands for JavaScript numbers, which the code never
  computes with. \<open>JObj\<close> is any object (plain object, array, function, Error instance),
  given by the table of the properties that can be read from it.
\<close>

datatype 'n jsval =
    JUndefined
  | JNull
  | JBool bool
  | JNum 'n
  | JStr string
  | JObj "(string \<times> 'n jsval) list"

text \<open>
  What the code can throw: the \<open>TypeError\<close> of a property read on \<open>undefined\<close> or \<open>null\<close>,
  and the error with which sql-formatter's \<open>format\<close> rejects a text it cannot parse,
  kept with its message.
\<close>

datatype exn = TypeError | ParseError string

text \<open>
  Reading a property \<open>v.k\<close>: a \<open>TypeError\<close> on \<open>undefined\<close> and \<open>null\<close>, the table's entry
  on an object, and \<open>undefined\<close> for a name that the value does not have. On primitives
  this is used with the names \<open>response\<close>, \<open>data\<close>, \<open>message\<close> and \<open>querySQL\<close> only,
  which no built-in prototype defines.
\<close>

fun getProp :: "'n jsval \<Rightarrow> string \<Rightarrow> exn + 'n jsval" where
  "getProp JUndefined k = Inl TypeError"
| "getProp JNull k = Inl TypeError"
| "getProp (JObj ps) k = Inr (case map_of ps k of None \<Rightarrow> JUndefined | Some v \<Rightarrow> v)"
| "getProp v k = Inr JUndefined"

text \<open>The \<open>typeof v === 'string'\<close> test.\<close>

fun typeofString :: "'n jsval \<Rightarrow> bool" where
  "typeofString (JStr s) = True"
| "typeofString v = False"

text \<open>
  Modelled from the spec: \<open>isNullish\<close> and \<open>notNullish\<close> of \<open>@site/src/utils/value\<close>, which
  is not among the sources: by their names, the tests for \<open>null\<close> and \<open>undefined\<close>.
\<close>

fun isNullish :: "'n jsval \<Rightarrow> bool" where
  "isNullish JUndefined = True"
| "isNullish JNull = True"
| "isNullish v = False"

definition notNullish :: "'n jsval \<Rightarrow> bool" where
  "notNullish v = (\<not> isNullish v)"

section \<open>Questions\<close>

text \<open>
  Modelled from the spec: the enum \<open>QuestionStatus\<close> of \<open>@site/src/api/explorer\<close>, which is not
  among the sources. The six members are the ones the code names; \<open>Other\<close> is any other
  value that arrives at run time, the one the \<open>default\<close> branch of \<open>resultTitle\<close> is for.
\<close>

datatype QuestionStatus = New | Waiting | Running | Success | Error | Cancel | Other string

record 'n QuestionSQLResult =
  rows :: "'n jsval list"
  fields' :: "string list"

text \<open>\<open>ChartResult\<close>: the chart's name and the other options spread into \<open>Charts\<close>.\<close>

record 'n ChartResult =
  chartName :: string
  chartOptions :: "(string \<times> 'n jsval) list"

text \<open>
  Modelled from the spec: the fields of \<open>Question\<close> (declared in \<open>@site/src/api/explorer\<close>)
  that the two components read. An optional field that is absent or \<open>null\<close> is \<open>None\<close>.
\<close>

record 'n Question =
  id' :: string
  status :: QuestionStatus
  querySQL :: string
  engines :: "string list"
  result :: "'n QuestionSQLResult option"
  chart :: "'n ChartResult option"
  spent :: "'n option"
  error :: "string option"

section \<open>Timers\<close>

text \<open>
  The browser's timer table as far as this hook uses it: \<open>setTimeout\<close> returns a fresh
  handle and leaves the callback pending; \<open>clearTimeout\<close> removes the pending entry of a
  handle and does nothing for a handle that is not pending. The only callback the code
  passes is \<open>() => setAsyncData(pollQuestion(data.id))\<close>, kept as \<open>PollQuestion id\<close>.
\<close>

datatype action = PollQuestion string

record timeout =
  handle :: nat
  delay :: nat
  callback :: action

record timers =
  pending :: "timeout list"
  next_handle :: nat

definition setTimeout :: "action \<Rightarrow> nat \<Rightarrow> timers \<Rightarrow> nat \<times> timers" where
  "setTimeout cb ms t =
     (next_handle t,
      t\<lparr>pending := pending t @ [\<lparr>handle = next_handle t, delay = ms, callback = cb\<rparr>],
        next_handle := Suc (next_handle t)\<rparr>)"

definition clearTimeout :: "nat \<Rightarrow> timers \<Rightarrow> timers" where
  "clearTimeout h t = t\<lparr>pending := filter (\<lambda>x. handle x \<noteq> h) (pending t)\<rparr>"

section \<open>useQuestion\<close>

text \<open>The closure \<open>() => { clearTimeout(h) }\<close> that the polling effect returns.\<close>

datatype cleanup = ClearTimeout nat

text \<open>
  The body shared by the three fall-through cases \<open>New\<close>, \<open>Waiting\<close> and \<open>Running\<close>:
  \<open>const h = setTimeout(() => { setAsyncData(pollQuestion(data.id)) }, 1500)\<close>, returning
  the cleanup.
\<close>

definition schedulePoll :: "'n Question \<Rightarrow> timers \<Rightarrow> cleanup option \<times> timers" where
  "schedulePoll d t =
     (case setTimeout (PollQuestion (id' d)) 1500 t of (h, t') \<Rightarrow> (Some (ClearTimeout h), t'))"

text \<open>
  The fourth effect of \<open>useQuestion\<close>, with dependencies \<open>[data, loading]\<close>. It returns the
  cleanup (if any) and the timer table.
\<close>

definition pollEffect :: "'n Question option \<Rightarrow> bool \<Rightarrow> timers \<Rightarrow> cleanup option \<times> timers" where
  "pollEffect data loading t =
     (case data of
        None \<Rightarrow> (None, t)
      | Some d \<Rightarrow>
          if loading then (None, t)
          else (case status d of
                  New \<Rightarrow> schedulePoll d t
                | Waiting \<Rightarrow> schedulePoll d t
                | Running \<Rightarrow> schedulePoll d t
                | Success \<Rightarrow> (None, t)
                | Error \<Rightarrow> (None, t)
                | Cancel \<Rightarrow> (None, t)
                | Other s \<Rightarrow> (None, t)))"

text \<open>
  How React drives that effect. A render whose dependencies \<open>[data, loading]\<close> changed runs
  the cleanup that the previous run returned, then the effect (\<open>Rerun\<close>); unmounting runs
  the last cleanup (\<open>Unmount\<close>). The browser fires a pending timeout (\<open>Fire h\<close>): the entry
  leaves the table and its callback runs, which calls \<open>pollQuestion\<close>; the ids it was
  called with are collected in \<open>polls\<close>. What \<open>setAsyncData\<close> then does to \<open>data\<close> and
  \<open>loading\<close> (\<open>useAsyncState\<close> is not among the sources) shows as later \<open>Rerun\<close> events
  with any values.
\<close>

record hook =
  timers_of :: timers
  last_cleanup :: "cleanup option"
  polls :: "string list"

datatype 'n event = Rerun "'n Question option" bool | Fire nat | Unmount

definition runCleanup :: "cleanup option \<Rightarrow> timers \<Rightarrow> timers" where
  "runCleanup c t = (case c of None \<Rightarrow> t | Some (ClearTimeout h) \<Rightarrow> clearTimeout h t)"

definition fired :: "nat \<Rightarrow> timers \<Rightarrow> string list" where
  "fired h t =
     map (\<lambda>x. case callback x of PollQuestion i \<Rightarrow> i) (filter (\<lambda>x. handle x = h) (pending t))"

fun step :: "hook \<Rightarrow> 'n event \<Rightarrow> hook" where
  "step s (Rerun data loading) =
     (case pollEffect data loading (runCleanup (last_cleanup s) (timers_of s)) of
        (c, t) \<Rightarrow> s\<lparr>timers_of := t, last_cleanup := c\<rparr>)"
| "step s (Fire h) =
     s\<lparr>timers_of := clearTimeout h (timers_of s), polls := polls s @ fired h (timers_of s)\<rparr>"
| "step s Unmount =
     s\<lparr>timers_of := runCleanup (last_cleanup s) (timers_of s), last_cleanup := None\<rparr>"

definition mount :: "nat \<Rightarrow> hook" where
  "mount n = \<lparr>timers_of = \<lparr>pending = [], next_handle = n\<rparr>, last_cleanup = None, polls = []\<rparr>"

definition run_events :: "nat \<Rightarrow> 'n event list \<Rightarrow> hook" where
  "run_events n evs = foldl step (mount n) evs"

text \<open>\<open>PENDING_STATE\<close> and the two derived values that \<open>useQuestion\<close> returns.\<close>

definition PENDING_STATE :: "QuestionStatus set" where
  "PENDING_STATE = {New, Waiting, Running}"

definition resultPending :: "'n Question option \<Rightarrow> bool" where
  "resultPending data = (case data of None \<Rightarrow> False | Some d \<Rightarrow> status d \<in> PENDING_STATE)"

text \<open>
  \<open>resultError\<close> is either the object made by \<open>new Error(message)\<close> or the question's own
  \<open>error\<close> field; \<open>None\<close> is \<open>undefined\<close> (or the field's \<open>null\<close>).
\<close>

datatype result_error = NewError string | QuestionError string

definition resultError :: "'n Question option \<Rightarrow> result_error option" where
  "resultError data =
     (if map_option status data = Some Cancel then Some (NewError ''Execution was canceled'')
      else (case data of None \<Rightarrow> None | Some d \<Rightarrow> map_option QuestionError (error d)))"

text \<open>
  The predicate that the proofs about the event runs carry along: the cleanup React
  holds clears whatever is pending, and at most one timeout is pending.
\<close>

definition hook_inv :: "hook \<Rightarrow> bool" where
  "hook_inv s =
     (pending (runCleanup (last_cleanup s) (timers_of s)) = [] \<and>
      length (pending (timers_of s)) \<le> 1)"

section \<open>isSqlError and the formatted SQL\<close>

text \<open>
  \<open>isAxiosError\<close> (\<open>@site/src/utils/error\<close>) is not among the sources and is a parameter.
  The conjunction \<open>isAxiosError(error) && notNullish(error.response)\<close> reads
  \<open>error.response\<close> only when the first test holds.
\<close>

definition isSqlError :: "('n jsval \<Rightarrow> bool) \<Rightarrow> 'n jsval \<Rightarrow> exn + bool" where
  "isSqlError isAxiosError err =
     (if isAxiosError err then
        (case getProp err ''response'' of
           Inl e \<Rightarrow> Inl e
         | Inr response \<Rightarrow>
             if notNullish response then
               (case getProp response ''data'' of
                  Inl e \<Rightarrow> Inl e
                | Inr data \<Rightarrow>
                    if notNullish data then
                      (case getProp data ''message'' of
                         Inl e \<Rightarrow> Inl e
                       | Inr message \<Rightarrow>
                           if typeofString message then
                             (case getProp data ''querySQL'' of
                                Inl e \<Rightarrow> Inl e
                              | Inr q \<Rightarrow> Inr (typeofString q))
                           else Inr False)
                    else Inr False)
             else Inr False)
      else Inr False)"

text \<open>
  One function that the parameter \<open>isAxiosError\<close> can be, the test of the axios library:
  an object whose property \<open>isAxiosError\<close> is \<open>true\<close>.
\<close>

definition axiosIsAxiosError :: "'n jsval \<Rightarrow> bool" where
  "axiosIsAxiosError payload =
     (case payload of
        JObj ps \<Rightarrow> (case map_of ps ''isAxiosError'' of Some (JBool b) \<Rightarrow> b | _ \<Rightarrow> False)
      | _ \<Rightarrow> False)"

text \<open>The expression \<open>sqlError.response?.data.querySQL ?? ''\<close>.\<close>

definition errorQuerySQL :: "'n jsval \<Rightarrow> exn + 'n jsval" where
  "errorQuerySQL sqlError =
     (case getProp sqlError ''response'' of
        Inl e \<Rightarrow> Inl e
      | Inr response \<Rightarrow>
          if isNullish response then Inr (JStr [])
          else (case getProp response ''data'' of
                  Inl e \<Rightarrow> Inl e
                | Inr data \<Rightarrow>
                    (case getProp data ''querySQL'' of
                       Inl e \<Rightarrow> Inl e
                     | Inr q \<Rightarrow> Inr (if isNullish q then JStr [] else q))))"

text \<open>
  \<open>formattedSql\<close> of the \<open>Execution\<close> component. \<open>format\<close> is sql-formatter's function, a
  parameter: it returns the formatted text or throws, and the memo has no \<open>catch\<close>, so
  what \<open>format\<close> throws the memo throws. \<open>Inr None\<close> is the \<open>undefined\<close> of the memo that
  returns nothing. \<open>format\<close> is declared on strings; the last branch (another kind of
  value) is there to make the function total.
\<close>

definition formattedSql ::
  "(string \<Rightarrow> exn + string) \<Rightarrow> ('n jsval \<Rightarrow> bool) \<Rightarrow> 'n Question option \<Rightarrow> 'n jsval \<Rightarrow>
   exn + string option"
where
  "formattedSql format isAxiosError question sqlError =
     (case question of
        Some q \<Rightarrow>
          (case format (querySQL q) of Inl e \<Rightarrow> Inl e | Inr f \<Rightarrow> Inr (Some f))
      | None \<Rightarrow>
          (case isSqlError isAxiosError sqlError of
             Inl e \<Rightarrow> Inl e
           | Inr False \<Rightarrow> Inr None
           | Inr True \<Rightarrow>
               (case errorQuerySQL sqlError of
                  Inl e \<Rightarrow> Inl e
                | Inr (JStr s) \<Rightarrow>
                    (case format s of Inl e \<Rightarrow> Inl e | Inr f \<Rightarrow> Inr (Some f))
                | Inr v \<Rightarrow> Inl TypeError)))"

text \<open>
  The querySQL string that an error carries in its response body, if it carries one:
  the condition as the specification words it, to compare with \<open>isSqlError\<close>.
\<close>

definition carriedQuerySQL :: "'n jsval \<Rightarrow> string option" where
  "carriedQuerySQL err =
     (case err of
        JObj ps \<Rightarrow>
          (case map_of ps ''response'' of
             Some (JObj rs) \<Rightarrow>
               (case map_of rs ''data'' of
                  Some (JObj ds) \<Rightarrow>
                    (case map_of ds ''querySQL'' of Some (JStr s) \<Rightarrow> Some s | _ \<Rightarrow> None)
                | _ \<Rightarrow> None)
           | _ \<Rightarrow> None)
      | _ \<Rightarrow> None)"

section \<open>Rendered elements\<close>

text \<open>
  What a component returns. \<open>Element tag props children\<close> is a JSX element with its
  string-valued props; the style props (\<open>sx\<close>, \<open>style\<close> and the grid's layout props) are
  left out. \<open>Charts\<close> and \<open>TableChart\<close> carry the data they are given; \<open>Card\<close> carries its
  click handler; a \<open>TabPanel\<close> inside a \<open>TabContext\<close> is the pair of \<open>@mui/lab\<close>.
  \<open>ToggleButtonGroup value children\<close> is the group of \<open>Chart\<close>, whose other props are
  constant (\<open>size="small"\<close>, \<open>exclusive\<close>, \<open>color="primary"\<close>, \<open>onChange={handleTabChange}\<close>).
  The \<open>value\<close> of the group and of the \<open>TabContext\<close> is the state \<open>tab\<close>, which is a string
  or \<open>null\<close> (\<open>None\<close>).
  \<open>ErrorMessage e\<close> is the text \<open>{getErrorMessage(e)}\<close>; \<open>getErrorMessage\<close>
  (\<open>@site/src/utils/error\<close>) is not among the sources.
\<close>

datatype handler = OnSelect string

datatype 'n node =
    Null
  | Text string
  | Fragment "'n node list"
  | Element string "(string \<times> string) list" "'n node list"
  | Charts "'n ChartResult" "'n jsval list" "string list option"
  | TableChart string string "'n jsval list" "string list option"
  | ErrorMessage "'n jsval"
  | Card handler "'n node list"
  | ToggleButtonGroup "string option" "'n node list"
  | TabContext "string option" "'n node list"
  | TabPanel string "'n node list"

text \<open>
  The views that are on screen below a node. As in \<open>@mui/lab\<close>, a \<open>TabPanel\<close> renders its
  children only when its \<open>value\<close> is the \<open>value\<close> of the enclosing \<open>TabContext\<close>. The
  first argument is that value, \<open>None\<close> outside of any \<open>TabContext\<close>.
\<close>

fun shownViews :: "string option option \<Rightarrow> 'n node \<Rightarrow> 'n node list" where
  "shownViews ctx Null = []"
| "shownViews ctx (Text s) = []"
| "shownViews ctx (Fragment ns) = concat (map (shownViews ctx) ns)"
| "shownViews ctx (Element tag ps ns) = concat (map (shownViews ctx) ns)"
| "shownViews ctx (Charts c r f) = [Charts c r f]"
| "shownViews ctx (TableChart n t r f) = [TableChart n t r f]"
| "shownViews ctx (ErrorMessage e) = []"
| "shownViews ctx (Card h ns) = concat (map (shownViews ctx) ns)"
| "shownViews ctx (ToggleButtonGroup v ns) = concat (map (shownViews ctx) ns)"
| "shownViews ctx (TabContext v ns) = concat (map (shownViews (Some v)) ns)"
| "shownViews ctx (TabPanel v ns) =
     (if ctx = Some (Some v) then concat (map (shownViews ctx) ns) else [])"

text \<open>Whether a toggle (a \<open>ToggleButtonGroup\<close>) occurs in a node.\<close>

fun hasToggle :: "'n node \<Rightarrow> bool" where
  "hasToggle Null = False"
| "hasToggle (Text s) = False"
| "hasToggle (Fragment ns) = list_ex hasToggle ns"
| "hasToggle (Element tag ps ns) = list_ex hasToggle ns"
| "hasToggle (Charts c r f) = False"
| "hasToggle (TableChart n t r f) = False"
| "hasToggle (ErrorMessage e) = False"
| "hasToggle (Card h ns) = list_ex hasToggle ns"
| "hasToggle (ToggleButtonGroup v ns) = True"
| "hasToggle (TabContext v ns) = list_ex hasToggle ns"
| "hasToggle (TabPanel v ns) = list_ex hasToggle ns"

text \<open>Whether a \<open>Charts\<close> element occurs in a node, shown or not.\<close>

fun hasCharts :: "'n node \<Rightarrow> bool" where
  "hasCharts Null = False"
| "hasCharts (Text s) = False"
| "hasCharts (Fragment ns) = list_ex hasCharts ns"
| "hasCharts (Element tag ps ns) = list_ex hasCharts ns"
| "hasCharts (Charts c r f) = True"
| "hasCharts (TableChart n t r f) = False"
| "hasCharts (ErrorMessage e) = False"
| "hasCharts (Card h ns) = list_ex hasCharts ns"
| "hasCharts (ToggleButtonGroup v ns) = list_ex hasCharts ns"
| "hasCharts (TabContext v ns) = list_ex hasCharts ns"
| "hasCharts (TabPanel v ns) = list_ex hasCharts ns"

section \<open>The result title\<close>

text \<open>A list length in a template literal: the decimal digits.\<close>

fun decimal :: "nat \<Rightarrow> string" where
  "decimal n =
     (if n < 10 then [''0123456789'' ! n]
      else decimal (n div 10) @ [''0123456789'' ! (n mod 10)])"

text \<open>\<open>Array.prototype.join\<close> on a list of strings.\<close>

fun join :: "string list \<Rightarrow> string \<Rightarrow> string" where
  "join [] sep = []"
| "join [x] sep = x"
| "join (x # y # ys) sep = x @ sep @ join (y # ys) sep"

text \<open>The static help bubble next to the engine tag.\<close>

definition engineInfo :: "'n node" where
  "engineInfo =
     Element ''Info'' []
       [Element ''Typography'' [(''variant'', ''body1'')]
          [Element ''b'' [] [Text ''tikv''], Text '': row-store engine'', Element ''br'' [] [],
           Element ''b'' [] [Text ''tiflash''], Text '': column-store engine''],
        Element ''Divider'' [(''orientation'', ''horizontal'')] [],
        Element ''Typography'' [(''variant'', ''body2'')]
          [Text ''Intelligent query processing in '',
           Element ''a'' [] [Text ''TiDB optimizer''], Text ''.'']]"

definition renderEngines :: "'n Question option \<Rightarrow> 'n node" where
  "renderEngines question =
     (case question of
        None \<Rightarrow> Null
      | Some q \<Rightarrow>
          if engines q \<noteq> [] then
            Fragment [Text '', Running on'',
                      Element ''EngineTag'' [] [Text (join (engines q) '', '')],
                      engineInfo]
          else Null)"

text \<open>
  The template literal of the \<open>Success\<close> title. \<open>numberToString\<close> is JavaScript's
  conversion of a number to a string, a parameter as the numbers are.
\<close>

definition summaryText :: "('n \<Rightarrow> string) \<Rightarrow> 'n Question \<Rightarrow> string" where
  "summaryText numberToString q =
     (case result q of None \<Rightarrow> ''NaN'' | Some r \<Rightarrow> decimal (length (rows r)))
     @ '' rows in ''
     @ (case spent q of None \<Rightarrow> ''NaN'' | Some x \<Rightarrow> numberToString x)
     @ '' seconds''"

definition resultTitle :: "('n \<Rightarrow> string) \<Rightarrow> 'n Question option \<Rightarrow> bool \<Rightarrow> 'n node" where
  "resultTitle numberToString question chartLoading =
     (case question of
        Some q \<Rightarrow>
          (case status q of
             New \<Rightarrow> Text ''Pending...''
           | Waiting \<Rightarrow> Text ''Waiting execution...''
           | Running \<Rightarrow> Text ''Running SQL...''
           | Success \<Rightarrow>
               if chartLoading then Text ''Visualizing...''
               else Fragment [Text (summaryText numberToString q), renderEngines (Some q)]
           | Error \<Rightarrow> Text ''Failed to execute SQL''
           | Cancel \<Rightarrow> Text ''Execution canceled''
           | Other s \<Rightarrow> Text ''Unknown state'')
      | None \<Rightarrow> Text ''Pending...'')"

section \<open>The Chart component\<close>

definition renderChart :: "'n ChartResult \<Rightarrow> 'n jsval list \<Rightarrow> string list option \<Rightarrow> 'n node" where
  "renderChart chartData data flds = Charts chartData data flds"

definition renderTable :: "'n jsval list \<Rightarrow> string list option \<Rightarrow> 'n node" where
  "renderTable data flds = TableChart ''Table'' ''hi'' data flds"

text \<open>
  The memoised body of \<open>Chart\<close>, as a function of the state \<open>tab\<close> and the props.
  \<open>chartError\<close> has type \<open>unknown\<close>; \<open>data\<close> is the prop \<open>result\<close> (the rows)
  and \<open>flds\<close> the prop \<open>fields\<close>.
\<close>

definition Chart ::
  "string option \<Rightarrow> 'n ChartResult option \<Rightarrow> 'n jsval \<Rightarrow> string list option \<Rightarrow>
   'n jsval list option \<Rightarrow> 'n node"
where
  "Chart tab chartData chartError flds data =
     (case chartData of
        None \<Rightarrow> Null
      | Some c \<Rightarrow>
          (case data of
             None \<Rightarrow> Null
           | Some r \<Rightarrow>
               if notNullish chartError then
                 Fragment
                   [Element ''Alert'' [(''severity'', ''error'')] [ErrorMessage chartError],
                    renderTable r flds]
               else if chartName c = ''Table'' then renderChart c r flds
               else
                 Fragment
                   [Element ''Controls'' []
                      [ToggleButtonGroup tab
                         [Element ''ToggleButton'' [(''value'', ''visualization'')]
                            [Element ''AutoGraph'' [] []],
                          Element ''ToggleButton'' [(''value'', ''raw'')]
                            [Element ''TableView'' [] []]]],
                    TabContext tab
                      [TabPanel ''visualization'' [renderChart c r flds],
                       TabPanel ''raw'' [renderTable r flds]]]))"

text \<open>
  The state \<open>tab\<close> of \<open>Chart\<close>: \<open>useState('visualization')\<close>, and \<open>handleTabChange\<close>, which
  stores the value it is given; the result is the new state. Its parameter is declared
  \<open>newValue: string\<close>, but the caller decides what arrives, and that can be \<open>null\<close>
  (\<open>None\<close>).
\<close>

definition initialTab :: "string option" where
  "initialTab = Some ''visualization''"

definition handleTabChange :: "string option \<Rightarrow> string option" where
  "handleTabChange newValue = newValue"

text \<open>
  The only caller of \<open>handleTabChange\<close> is the \<open>onChange\<close> of the exclusive
  \<open>ToggleButtonGroup\<close>, which has the two buttons below. As in \<open>@mui/material\<close>, a click
  on a button of an exclusive group calls \<open>onChange\<close> with \<open>null\<close> when that button is the
  selected one and with the button's value otherwise.
\<close>

datatype toggle_button = VisualizationButton | RawButton

fun buttonValue :: "toggle_button \<Rightarrow> string" where
  "buttonValue VisualizationButton = ''visualization''"
| "buttonValue RawButton = ''raw''"

definition exclusiveChange :: "string option \<Rightarrow> toggle_button \<Rightarrow> string option" where
  "exclusiveChange groupValue b =
     (if groupValue = Some (buttonValue b) then None else Some (buttonValue b))"

text \<open>
  What happens to \<open>tab\<close>: the effect on \<open>[chartData]\<close> sets it back to \<open>visualization\<close>, and
  a click on a toggle button goes through \<open>handleTabChange\<close>.
\<close>

datatype chart_event = ChartDataChanged | Click toggle_button

fun chartStep :: "string option \<Rightarrow> chart_event \<Rightarrow> string option" where
  "chartStep tab ChartDataChanged = Some ''visualization''"
| "chartStep tab (Click b) = handleTabChange (exclusiveChange tab b)"

definition chartRun :: "chart_event list \<Rightarrow> string option" where
  "chartRun evs = foldl chartStep initialTab evs"

section \<open>Suggestions\<close>

datatype type_key =
  hotTopics | programmingLanguage | trends | contributors | stars | similarProjects
  | location | company

record suggestion_type =
  title :: string
  color :: string

text \<open>
  The table \<open>types\<close>. Every title starts with an emoji, given here by the bytes of its
  UTF-8 encoding.
\<close>

fun types :: "type_key \<Rightarrow> suggestion_type" where
  "types hotTopics =
     \<lparr>title = [CHR 0xF0, CHR 0x9F, CHR 0x94, CHR 0xA5] @ '' Hot topics'', color = ''#E78F34''\<rparr>"
| "types programmingLanguage =
     \<lparr>title = [CHR 0xF0, CHR 0x9F, CHR 0x91, CHR 0xBE] @ '' Programming Language'',
      color = ''#8253F6''\<rparr>"
| "types trends =
     \<lparr>title = [CHR 0xF0, CHR 0x9F, CHR 0x9A, CHR 0x80] @ '' OSS trends'', color = ''#E78F34''\<rparr>"
| "types contributors =
     \<lparr>title = [CHR 0xF0, CHR 0x9F, CHR 0xA7, CHR 0x91, CHR 0xE2, CHR 0x80, CHR 0x8D,
               CHR 0xF0, CHR 0x9F, CHR 0x92, CHR 0xBB] @ '' Contributors'',
      color = ''#C9B4FF''\<rparr>"
| "types stars =
     \<lparr>title = [CHR 0xF0, CHR 0x9F, CHR 0x8C, CHR 0x9F] @ '' Stars'', color = ''#519AEB''\<rparr>"
| "types similarProjects =
     \<lparr>title = [CHR 0xF0, CHR 0x9F, CHR 0x94, CHR 0x8D] @ '' Similar projects'',
      color = ''#34A352''\<rparr>"
| "types location =
     \<lparr>title = [CHR 0xF0, CHR 0x9F, CHR 0x8C, CHR 0x8D] @ '' Location'', color = ''#FFD7AD''\<rparr>"
| "types company =
     \<lparr>title = [CHR 0xF0, CHR 0x9F, CHR 0x8F, CHR 0xA2] @ '' Company'', color = ''#BCDAFF''\<rparr>"

record suggestion =
  type' :: type_key
  content :: string

definition questions :: "suggestion list" where
  "questions =
     [\<lparr>type' = hotTopics, content = ''Popular repos related to ChatGPT''\<rparr>,
      \<lparr>type' = hotTopics, content = ''The most watched Web3 projects''\<rparr>,
      \<lparr>type' = programmingLanguage, content = ''Top python projects 2022''\<rparr>,
      \<lparr>type' = programmingLanguage,
       content = ''What is the distribution of primary language used in repositories''\<rparr>,
      \<lparr>type' = trends, content = ''The closed PR monthly history of GitHub''\<rparr>,
      \<lparr>type' = trends, content = ''The star history of GitHub all the time''\<rparr>,
      \<lparr>type' = contributors, content = ''Contributor list of @pingcap/tidb''\<rparr>,
      \<lparr>type' = stars, content = ''Star history of @carbon-language/carbon-lang''\<rparr>,
      \<lparr>type' = similarProjects, content = ''Projects similar to @facebook/react''\<rparr>,
      \<lparr>type' = trends, content = ''Top trending HCL repositories of the past month''\<rparr>,
      \<lparr>type' = location, content = ''The most watched projects by India developers''\<rparr>,
      \<lparr>type' = location, content = ''Where are @kubernetes/kubernetes contributors come from''\<rparr>,
      \<lparr>type' = company,
       content = ''What projects Microsoft developers like to contribute to''\<rparr>]"

text \<open>
  The callback of \<open>questions.map\<close>: one grid item holding a card whose \<open>onClick\<close> is
  \<open>() => onSelect(question.content)\<close>.
\<close>

definition renderSuggestion :: "suggestion \<Rightarrow> nat \<Rightarrow> 'n node" where
  "renderSuggestion question index =
     Element ''Grid'' [(''item'', ''true''), (''key'', decimal index)]
       [Card (OnSelect (content question))
          [Element ''Tag'' [(''color'', color (types (type' question)))]
             [Text (title (types (type' question)))],
           Element ''div'' [] [Text (content question)]]]"

definition Suggestions :: "'n node" where
  "Suggestions =
     Element ''Grid'' [(''container'', ''true'')]
       (map (\<lambda>(question, index). renderSuggestion question index)
          (zip questions [0..<length questions]))"

text \<open>The click handlers of the cards below a node, in document order.\<close>

fun cardHandlers :: "'n node \<Rightarrow> handler list" where
  "cardHandlers Null = []"
| "cardHandlers (Text s) = []"
| "cardHandlers (Fragment ns) = concat (map cardHandlers ns)"
| "cardHandlers (Element tag ps ns) = concat (map cardHandlers ns)"
| "cardHandlers (Charts c r f) = []"
| "cardHandlers (TableChart n t r f) = []"
| "cardHandlers (ErrorMessage e) = []"
| "cardHandlers (Card h ns) = h # concat (map cardHandlers ns)"
| "cardHandlers (ToggleButtonGroup v ns) = concat (map cardHandlers ns)"
| "cardHandlers (TabContext v ns) = concat (map cardHandlers ns)"
| "cardHandlers (TabPanel v ns) = concat (map cardHandlers ns)"

text \<open>The texts below a node, in document order.\<close>

fun texts :: "'n node \<Rightarrow> string list" where
  "texts Null = []"
| "texts (Text s) = [s]"
| "texts (Fragment ns) = concat (map texts ns)"
| "texts (Element tag ps ns) = concat (map texts ns)"
| "texts (Charts c r f) = []"
| "texts (TableChart n t r f) = []"
| "texts (ErrorMessage e) = []"
| "texts (Card h ns) = concat (map texts ns)"
| "texts (ToggleButtonGroup v ns) = concat (map texts ns)"
| "texts (TabContext v ns) = concat (map texts ns)"
| "texts (TabPanel v ns) = concat (map texts ns)"

text \<open>
  Clicking the \<open>i\<close>-th card of \<open>Suggestions\<close>: the argument that \<open>onSelect\<close> is called with
  (\<open>None\<close> when there is no such card).
\<close>

definition clickCard :: "nat \<Rightarrow> string option" where
  "clickCard i =
     (let hs = cardHandlers (Suggestions :: unit node)
      in if i < length hs then (case hs ! i of OnSelect s \<Rightarrow> Some s) else None)"

declare decimal.simps [simp del]

section \<open>isSqlError as the specification describes it\<close>

text \<open>
  A property read that gives \<open>undefined\<close> wherever nothing can be read, and the
  description of \<open>isSqlError\<close> in the specification's words: an Axios error with a
  non-nullish response whose non-nullish data has a string-typed \<open>message\<close> and a
  string-typed \<open>querySQL\<close>.
\<close>

fun propOrUndefined :: "'n jsval \<Rightarrow> string \<Rightarrow> 'n jsval" where
  "propOrUndefined (JObj ps) k = (case map_of ps k of None \<Rightarrow> JUndefined | Some v \<Rightarrow> v)"
| "propOrUndefined v k = JUndefined"

definition isSqlErrorSpec :: "('n jsval \<Rightarrow> bool) \<Rightarrow> 'n jsval \<Rightarrow> bool" where
  "isSqlErrorSpec isAxiosError err =
     (let response = propOrUndefined err ''response'';
          data = propOrUndefined response ''data''
      in isAxiosError err \<and> notNullish response \<and> notNullish data \<and>
         typeofString (propOrUndefined data ''message'') \<and>
         typeofString (propOrUndefined data ''querySQL''))"

section \<open>The polling effect\<close>

lemma pending_clearTimeout: "pending (clearTimeout h t) = filter (\<lambda>x. handle x \<noteq> h) (pending t)"
  by (simp add: clearTimeout_def)

lemma next_handle_clearTimeout: "next_handle (clearTimeout h t) = next_handle t"
  by (simp add: clearTimeout_def)

lemma pollEffect_cases:
  "pollEffect data loading t =
     (if resultPending data \<and> \<not> loading
      then (Some (ClearTimeout (next_handle t)),
            t\<lparr>pending := pending t @
                 [\<lparr>handle = next_handle t, delay = 1500, callback = PollQuestion (id' (the data))\<rparr>],
               next_handle := Suc (next_handle t)\<rparr>)
      else (None, t))"
  by (auto simp: pollEffect_def resultPending_def PENDING_STATE_def schedulePoll_def setTimeout_def
      split: option.splits QuestionStatus.splits)

lemma hook_inv_mount: "hook_inv (mount n)"
  by (simp add: hook_inv_def mount_def runCleanup_def)

lemma hook_inv_step: "hook_inv s \<Longrightarrow> hook_inv (step s e)"
proof (cases e)
  case (Rerun data loading)
  assume "hook_inv s"
  then show ?thesis using Rerun
    by (auto simp: hook_inv_def pollEffect_cases runCleanup_def pending_clearTimeout
        split: option.splits cleanup.splits)
next
  case (Fire h)
  assume "hook_inv s"
  then show ?thesis using Fire
    by (auto simp: hook_inv_def runCleanup_def pending_clearTimeout filter_empty_conv
        le_trans [OF length_filter_le] split: option.splits cleanup.splits)
next
  case Unmount
  assume "hook_inv s"
  then show ?thesis using Unmount
    by (auto simp: hook_inv_def runCleanup_def pending_clearTimeout
        split: option.splits cleanup.splits)
qed

lemma hook_inv_run: "hook_inv (run_events n evs)"
  unfolding run_events_def
  by (induction evs rule: rev_induct) (simp_all add: hook_inv_mount hook_inv_step)

lemma rerun_pending:
  "pending (timers_of (step (run_events n evs) (Rerun data loading))) =
     (if resultPending data \<and> \<not> loading
      then [\<lparr>handle = next_handle (timers_of (run_events n evs)), delay = 1500,
              callback = PollQuestion (id' (the data))\<rparr>]
      else [])"
  using hook_inv_run [of n evs]
  by (auto simp: hook_inv_def pollEffect_cases runCleanup_def pending_clearTimeout
      next_handle_clearTimeout split: option.splits cleanup.splits)

lemma polls_rerun: "polls (step s (Rerun data loading)) = polls s"
  by (simp split: prod.splits)

lemma polls_fire_after_rerun:
  "polls (step (step (run_events n evs) (Rerun data loading)) (Fire h)) =
     polls (run_events n evs) @
       (if resultPending data \<and> \<not> loading \<and> h = next_handle (timers_of (run_events n evs))
        then [id' (the data)] else [])"
proof -
  let ?s = "step (run_events n evs) (Rerun data loading)"
  have "polls (step ?s (Fire h)) = polls ?s @ fired h (timers_of ?s)"
    by simp
  also have "polls ?s = polls (run_events n evs)"
    by (rule polls_rerun)
  also have "fired h (timers_of ?s) =
       (if resultPending data \<and> \<not> loading \<and> h = next_handle (timers_of (run_events n evs))
        then [id' (the data)] else [])"
    unfolding fired_def rerun_pending by simp
  finally show ?thesis .
qed

text \<open>
  C1. When the question is present, not loading, and its status is \<open>New\<close>, \<open>Waiting\<close> or
  \<open>Running\<close>, the effect schedules one timeout of 1500 milliseconds whose callback polls
  the question's id: it is the one entry the run adds to any timer table, after a re-run
  it is the only pending entry, and when it fires \<open>pollQuestion\<close> is called once more,
  with that id.
  The delay does not depend on the question, on the status or on the history.
\<close>

theorem poll_scheduled_after_1500ms:
  assumes "status q = New \<or> status q = Waiting \<or> status q = Running"
  shows "pollEffect (Some q) False t =
           (Some (ClearTimeout (next_handle t)),
            t\<lparr>pending := pending t @
                 [\<lparr>handle = next_handle t, delay = 1500, callback = PollQuestion (id' q)\<rparr>],
               next_handle := Suc (next_handle t)\<rparr>) \<and>
         pending (timers_of (step (run_events n evs) (Rerun (Some q) False))) =
           [\<lparr>handle = next_handle (timers_of (run_events n evs)), delay = 1500,
             callback = PollQuestion (id' q)\<rparr>] \<and>
         polls (step (step (run_events n evs) (Rerun (Some q) False))
                  (Fire (next_handle (timers_of (run_events n evs))))) =
           polls (run_events n evs) @ [id' q]"
proof -
  have p: "resultPending (Some q)"
    using assms by (auto simp: resultPending_def PENDING_STATE_def)
  show ?thesis
    using p by (simp add: pollEffect_cases rerun_pending polls_fire_after_rerun del: step.simps)
qed

theorem poll_scheduled_witness:
  "status \<lparr>id' = ''q1'', status = Running, querySQL = ''SELECT 1'', engines = [],
            result = None, chart = None, spent = (None :: nat option), error = None\<rparr> = Running \<and>
   pollEffect
     (Some \<lparr>id' = ''q1'', status = Running, querySQL = ''SELECT 1'', engines = [],
            result = None, chart = None, spent = (None :: nat option), error = None\<rparr>)
     False \<lparr>pending = [], next_handle = 7\<rparr> =
   (Some (ClearTimeout 7),
    \<lparr>pending = [\<lparr>handle = 7, delay = 1500, callback = PollQuestion ''q1''\<rparr>], next_handle = 8\<rparr>)"
proof -
  let ?q = "\<lparr>id' = ''q1'', status = Running, querySQL = ''SELECT 1'', engines = [],
            result = None, chart = None, spent = (None :: nat option), error = None\<rparr>"
  have h: "status ?q = New \<or> status ?q = Waiting \<or> status ?q = Running"
    by simp
  from poll_scheduled_after_1500ms [OF h, of "\<lparr>pending = [], next_handle = 7\<rparr>" 0 "[]"]
  have "pollEffect (Some ?q) False \<lparr>pending = [], next_handle = 7\<rparr> =
          (Some (ClearTimeout (next_handle \<lparr>pending = [], next_handle = 7\<rparr>)),
           \<lparr>pending = [], next_handle = 7\<rparr>\<lparr>pending := pending \<lparr>pending = [], next_handle = 7\<rparr> @
                 [\<lparr>handle = next_handle \<lparr>pending = [], next_handle = 7\<rparr>, delay = 1500,
                   callback = PollQuestion (id' ?q)\<rparr>],
               next_handle := Suc (next_handle \<lparr>pending = [], next_handle = 7\<rparr>)\<rparr>)"
    by (rule conjunct1)
  then show ?thesis by simp
qed

text \<open>
  C2. After any sequence of effect re-runs, timeouts firing and unmounts, at most one
  timeout is pending; the cleanup that the next re-run starts with clears whatever is
  pending, so that what is pending after a re-run is what the effect schedules on an
  empty table.
\<close>

theorem at_most_one_timer_pending:
  "length (pending (timers_of (run_events n (evs :: 'n event list)))) \<le> 1 \<and>
   pending (runCleanup (last_cleanup (run_events n evs)) (timers_of (run_events n evs))) = [] \<and>
   pending (timers_of (step (run_events n evs) (Rerun (data :: 'n Question option) loading))) =
     pending (snd (pollEffect data loading
       \<lparr>pending = [], next_handle = next_handle (timers_of (run_events n evs))\<rparr>))"
  using hook_inv_run [of n evs]
  by (simp add: hook_inv_def rerun_pending pollEffect_cases del: step.simps)

section \<open>The values derived from the question\<close>

text \<open>
  C8. For a question whose status is \<open>Cancel\<close>, \<open>resultError\<close> is the error object with the
  message \<open>Execution was canceled\<close>, whatever the question's own \<open>error\<close> field is; for
  any other status it is the question's \<open>error\<close> field; with no question it is
  \<open>undefined\<close>.
\<close>

theorem resultError_cancel_or_own_error:
  "resultError (Some q) =
     (if status q = Cancel then Some (NewError ''Execution was canceled'')
      else map_option QuestionError (error q)) \<and>
   resultError (Some (q\<lparr>status := Cancel\<rparr>)) = Some (NewError ''Execution was canceled'') \<and>
   resultError None = None"
  by (simp add: resultError_def)

text \<open>
  C4. The result title by status: \<open>Pending...\<close> for no question and for \<open>New\<close>,
  \<open>Waiting execution...\<close> for \<open>Waiting\<close>, \<open>Running SQL...\<close> for \<open>Running\<close>,
  \<open>Failed to execute SQL\<close> for \<open>Error\<close>, \<open>Execution canceled\<close> for \<open>Cancel\<close>; for
  \<open>Success\<close>, \<open>Visualizing...\<close> while the chart loads and otherwise the row count and
  the seconds spent (each \<open>NaN\<close> when absent) followed by the engines; \<open>Unknown state\<close>
  for any other status.
\<close>

theorem resultTitle_by_status:
  "resultTitle num None cl = Text ''Pending...'' \<and>
   resultTitle num (Some (q\<lparr>status := New\<rparr>)) cl = Text ''Pending...'' \<and>
   resultTitle num (Some (q\<lparr>status := Waiting\<rparr>)) cl = Text ''Waiting execution...'' \<and>
   resultTitle num (Some (q\<lparr>status := Running\<rparr>)) cl = Text ''Running SQL...'' \<and>
   resultTitle num (Some (q\<lparr>status := Error\<rparr>)) cl = Text ''Failed to execute SQL'' \<and>
   resultTitle num (Some (q\<lparr>status := Cancel\<rparr>)) cl = Text ''Execution canceled'' \<and>
   resultTitle num (Some (q\<lparr>status := Success\<rparr>)) True = Text ''Visualizing...'' \<and>
   resultTitle num (Some (q\<lparr>status := Success\<rparr>)) False =
     Fragment
       [Text ((case result q of None \<Rightarrow> ''NaN'' | Some r \<Rightarrow> decimal (length (rows r)))
              @ '' rows in ''
              @ (case spent q of None \<Rightarrow> ''NaN'' | Some x \<Rightarrow> num x)
              @ '' seconds''),
        renderEngines (Some (q\<lparr>status := Success\<rparr>))] \<and>
   resultTitle num (Some (q\<lparr>status := Other s\<rparr>)) cl = Text ''Unknown state''"
  by (simp add: resultTitle_def summaryText_def)

text \<open>
  C3, as amended. For a question whose status is \<open>Error\<close> or \<open>Cancel\<close> the effect schedules
  nothing; after the re-run no timeout is pending and no handle that fires calls
  \<open>pollQuestion\<close>; the title is
  \<open>Failed to execute SQL\<close> or \<open>Execution canceled\<close>; \<open>resultError\<close> is the cancellation
  error for \<open>Cancel\<close> and the question's own \<open>error\<close> field for \<open>Error\<close>, set when the
  question carries one.
\<close>

theorem terminal_failure_no_retry:
  assumes "status q = Error \<or> status q = Cancel"
  shows "pollEffect (Some q) loading t = (None, t) \<and>
         pending (timers_of (step (run_events n evs) (Rerun (Some q) loading))) = [] \<and>
         polls (step (step (run_events n evs) (Rerun (Some q) loading)) (Fire h)) =
           polls (run_events n evs) \<and>
         resultError (Some q) =
           (if status q = Cancel then Some (NewError ''Execution was canceled'')
            else map_option QuestionError (error q)) \<and>
         resultTitle num (Some q) cl =
           Text (if status q = Cancel then ''Execution canceled'' else ''Failed to execute SQL'')"
proof -
  have np: "\<not> resultPending (Some q)"
    using assms by (auto simp: resultPending_def PENDING_STATE_def)
  have a: "pollEffect (Some q) loading t = (None, t)"
    using np by (simp add: pollEffect_cases)
  have b: "pending (timers_of (step (run_events n evs) (Rerun (Some q) loading))) = []"
    using np by (simp add: rerun_pending del: step.simps)
  have b': "polls (step (step (run_events n evs) (Rerun (Some q) loading)) (Fire h)) =
           polls (run_events n evs)"
    using np by (simp add: polls_fire_after_rerun del: step.simps)
  have c: "resultError (Some q) =
           (if status q = Cancel then Some (NewError ''Execution was canceled'')
            else map_option QuestionError (error q))"
    by (simp add: resultError_def)
  have d: "resultTitle num (Some q) cl =
           Text (if status q = Cancel then ''Execution canceled'' else ''Failed to execute SQL'')"
    using assms by (auto simp: resultTitle_def)
  from a b b' c d show ?thesis by blast
qed

theorem terminal_failure_witness:
  "status \<lparr>id' = ''q1'', status = Error, querySQL = ''SELECT 1'', engines = [],
            result = None, chart = None, spent = (None :: nat option), error = Some ''syntax error''\<rparr> = Error \<and>
   pollEffect
     (Some \<lparr>id' = ''q1'', status = Error, querySQL = ''SELECT 1'', engines = [],
            result = None, chart = None, spent = (None :: nat option), error = Some ''syntax error''\<rparr>)
     False \<lparr>pending = [], next_handle = 7\<rparr> = (None, \<lparr>pending = [], next_handle = 7\<rparr>) \<and>
   resultError
     (Some \<lparr>id' = ''q1'', status = Error, querySQL = ''SELECT 1'', engines = [],
            result = None, chart = None, spent = (None :: nat option), error = Some ''syntax error''\<rparr>)
     = Some (QuestionError ''syntax error'') \<and>
   resultTitle decimal
     (Some \<lparr>id' = ''q1'', status = Error, querySQL = ''SELECT 1'', engines = [],
            result = None, chart = None, spent = (None :: nat option), error = Some ''syntax error''\<rparr>)
     False = Text ''Failed to execute SQL''"
proof -
  let ?q = "\<lparr>id' = ''q1'', status = Error, querySQL = ''SELECT 1'', engines = [],
            result = None, chart = None, spent = (None :: nat option), error = Some ''syntax error''\<rparr>"
  have h: "status ?q = Error \<or> status ?q = Cancel"
    by simp
  note w = terminal_failure_no_retry [OF h, of False "\<lparr>pending = [], next_handle = 7\<rparr>" 0 "[]" 0 decimal False]
  from w have a: "pollEffect (Some ?q) False \<lparr>pending = [], next_handle = 7\<rparr> = (None, \<lparr>pending = [], next_handle = 7\<rparr>)"
    by (rule conjunct1)
  from w have b: "resultError (Some ?q) = (if status ?q = Cancel then Some (NewError ''Execution was canceled'')
            else map_option QuestionError (error ?q))"
    by blast
  from w have c: "resultTitle decimal (Some ?q) False = Text (if status ?q = Cancel then ''Execution canceled'' else ''Failed to execute SQL'')"
    by blast
  from a b c show ?thesis by simp
qed

text \<open>
  C3 as stated fails: a question with status \<open>Error\<close> and no \<open>error\<close> field has no
  \<open>resultError\<close>.
\<close>

theorem error_status_without_error_field:
  "status \<lparr>id' = ''q1'', status = Error, querySQL = ''SELECT 1'', engines = [],
            result = None, chart = None, spent = (None :: nat option), error = None\<rparr> = Error \<and>
   resultError
     (Some \<lparr>id' = ''q1'', status = Error, querySQL = ''SELECT 1'', engines = [],
            result = None, chart = None, spent = (None :: nat option), error = None\<rparr>) = None"
  by (simp add: resultError_def)

section \<open>isSqlError against its description\<close>

lemma getProp_Inr: "\<not> isNullish v \<Longrightarrow> getProp v k = Inr (propOrUndefined v k)"
  by (cases v) simp_all

lemma isSqlError_not_axios: "\<not> isAxiosError err \<Longrightarrow> isSqlError isAxiosError err = Inr False"
  by (simp add: isSqlError_def)

lemma isSqlError_axios:
  assumes "isAxiosError err" and "\<not> isNullish err"
  shows "isSqlError isAxiosError err = Inr (isSqlErrorSpec isAxiosError err)"
proof -
  let ?r = "propOrUndefined err ''response''"
  let ?d = "propOrUndefined ?r ''data''"
  have r: "getProp err ''response'' = Inr ?r"
    using assms(2) by (rule getProp_Inr)
  show ?thesis
  proof (cases "isNullish ?r")
    case True
    then show ?thesis
      using assms(1) r by (simp add: isSqlError_def isSqlErrorSpec_def notNullish_def)
  next
    case rn: False
    then have d: "getProp ?r ''data'' = Inr ?d"
      by (rule getProp_Inr)
    show ?thesis
    proof (cases "isNullish ?d")
      case True
      then show ?thesis
        using assms(1) r rn d by (simp add: isSqlError_def isSqlErrorSpec_def notNullish_def)
    next
      case dn: False
      then have "getProp ?d ''message'' = Inr (propOrUndefined ?d ''message'')"
        and "getProp ?d ''querySQL'' = Inr (propOrUndefined ?d ''querySQL'')"
        by (rule getProp_Inr)+
      then show ?thesis
        using assms(1) r rn d dn by (simp add: isSqlError_def isSqlErrorSpec_def notNullish_def)
    qed
  qed
qed

text \<open>
  C9. When \<open>isAxiosError\<close> accepts no \<open>null\<close> or \<open>undefined\<close>, \<open>isSqlError\<close> throws on no
  input and returns \<open>true\<close> exactly on the Axios errors with a non-nullish response whose
  non-nullish data has a string-typed \<open>message\<close> and a string-typed \<open>querySQL\<close>; on
  \<open>null\<close> and \<open>undefined\<close> it returns \<open>false\<close>.
\<close>

theorem isSqlError_total:
  assumes "\<forall>v. isAxiosError v \<longrightarrow> \<not> isNullish v"
  shows "isSqlError isAxiosError err = Inr (isSqlErrorSpec isAxiosError err) \<and>
         isSqlError isAxiosError JNull = Inr False \<and>
         isSqlError isAxiosError JUndefined = Inr False"
proof -
  have a: "isSqlError isAxiosError v = Inr (isSqlErrorSpec isAxiosError v)" for v
  proof (cases "isAxiosError v")
    case True
    then show ?thesis using assms by (simp add: isSqlError_axios)
  next
    case False
    then show ?thesis by (simp add: isSqlError_not_axios isSqlErrorSpec_def Let_def)
  qed
  have "\<not> isAxiosError JNull" and "\<not> isAxiosError JUndefined"
    using assms by fastforce+
  then have "isSqlError isAxiosError JNull = Inr False"
    and "isSqlError isAxiosError JUndefined = Inr False"
    by (simp_all add: isSqlError_not_axios)
  then show ?thesis using a by blast
qed

lemma axiosIsAxiosError_sound: "axiosIsAxiosError v \<Longrightarrow> \<not> isNullish v"
  by (cases v) (simp_all add: axiosIsAxiosError_def)

theorem isSqlError_total_witness:
  "isSqlError axiosIsAxiosError
     (JObj [(''isAxiosError'', JBool True),
            (''response'', JObj [(''data'', JObj [(''message'', JStr ''bad SQL''),
                                                  (''querySQL'', JStr ''SELEC 1'')])])]
        :: nat jsval) = Inr True \<and>
   isSqlError axiosIsAxiosError (JStr ''boom'' :: nat jsval) = Inr False \<and>
   isSqlError axiosIsAxiosError (JNull :: nat jsval) = Inr False"
proof -
  let ?e = "JObj [(''isAxiosError'', JBool True),
            (''response'', JObj [(''data'', JObj [(''message'', JStr ''bad SQL''),
                                                  (''querySQL'', JStr ''SELEC 1'')])])]
        :: nat jsval"
  have s: "\<forall>v :: nat jsval. axiosIsAxiosError v \<longrightarrow> \<not> isNullish v"
    by (simp add: axiosIsAxiosError_sound)
  have a: "isSqlError axiosIsAxiosError ?e = Inr (isSqlErrorSpec axiosIsAxiosError ?e)"
    using isSqlError_total [of axiosIsAxiosError ?e, OF s] by (rule conjunct1)
  have b: "isSqlError axiosIsAxiosError (JStr ''boom'' :: nat jsval) =
             Inr (isSqlErrorSpec axiosIsAxiosError (JStr ''boom'' :: nat jsval))"
    using isSqlError_total [of axiosIsAxiosError "JStr ''boom'' :: nat jsval", OF s] by (rule conjunct1)
  have c: "isSqlError axiosIsAxiosError (JNull :: nat jsval) = Inr False"
    using isSqlError_total [of axiosIsAxiosError ?e, OF s] by blast
  have a': "isSqlErrorSpec axiosIsAxiosError ?e"
    by (simp add: isSqlErrorSpec_def axiosIsAxiosError_def notNullish_def)
  have b': "\<not> isSqlErrorSpec axiosIsAxiosError (JStr ''boom'' :: nat jsval)"
    by (simp add: isSqlErrorSpec_def axiosIsAxiosError_def)
  from a b c a' b' show ?thesis by simp
qed

section \<open>The formatted SQL\<close>

lemma getProp_JStr:
  "getProp v k = Inr (JStr s) \<Longrightarrow> \<exists>ps. v = JObj ps \<and> map_of ps k = Some (JStr s)"
  by (cases v) (auto split: option.splits)

lemma getProp_JObj:
  "getProp v k = Inr (JObj rs) \<Longrightarrow> \<exists>ps. v = JObj ps \<and> map_of ps k = Some (JObj rs)"
  by (cases v) (auto split: option.splits)

lemma typeofString_JStr: "typeofString v \<Longrightarrow> \<exists>s. v = JStr s"
  by (cases v) simp_all

lemma isSqlError_True:
  assumes "isSqlError isAxiosError err = Inr True"
  shows "\<exists>r d m q. getProp err ''response'' = Inr r \<and> getProp r ''data'' = Inr d \<and>
           getProp d ''message'' = Inr m \<and> typeofString m \<and>
           getProp d ''querySQL'' = Inr q \<and> typeofString q"
  using assms by (auto simp: isSqlError_def split: if_splits sum.splits)

lemma isSqlError_True_shape:
  assumes "isSqlError isAxiosError err = Inr True"
  shows "\<exists>ps rs ds s. err = JObj ps \<and> map_of ps ''response'' = Some (JObj rs) \<and>
           map_of rs ''data'' = Some (JObj ds) \<and> map_of ds ''querySQL'' = Some (JStr s)"
proof -
  from isSqlError_True [OF assms] obtain r d m q where
    r: "getProp err ''response'' = Inr r" and d: "getProp r ''data'' = Inr d" and
    m: "getProp d ''message'' = Inr m" and tm: "typeofString m" and
    q: "getProp d ''querySQL'' = Inr q" and tq: "typeofString q"
    by blast
  from tq obtain s where s: "q = JStr s" using typeofString_JStr by blast
  from q s obtain ds where ds: "d = JObj ds" "map_of ds ''querySQL'' = Some (JStr s)"
    using getProp_JStr by blast
  from d ds obtain rs where rs: "r = JObj rs" "map_of rs ''data'' = Some (JObj ds)"
    using getProp_JObj by blast
  from r rs obtain ps where "err = JObj ps" "map_of ps ''response'' = Some (JObj rs)"
    using getProp_JObj by blast
  with rs ds show ?thesis by blast
qed

text \<open>
  C5, as amended. With a question, \<open>formattedSql\<close> is what \<open>format\<close> returns on its
  \<open>querySQL\<close>. With no question, when \<open>isSqlError\<close> holds of the error (string-typed
  \<open>message\<close> and string-typed \<open>querySQL\<close> in the response body of an Axios error) it is what
  \<open>format\<close> returns on that \<open>querySQL\<close>, and when \<open>isSqlError\<close> does not hold it is
  \<open>undefined\<close>. In both uses an error that \<open>format\<close> throws is thrown on.
\<close>

theorem formattedSql_cases:
  "formattedSql format isAxiosError (Some q) sqlError =
     (case format (querySQL q) of Inl x \<Rightarrow> Inl x | Inr f \<Rightarrow> Inr (Some f)) \<and>
   (isSqlError isAxiosError sqlError = Inr True \<longrightarrow>
      (\<exists>s. carriedQuerySQL sqlError = Some s \<and>
           formattedSql format isAxiosError None sqlError =
             (case format s of Inl x \<Rightarrow> Inl x | Inr f \<Rightarrow> Inr (Some f)))) \<and>
   (isSqlError isAxiosError sqlError = Inr False \<longrightarrow>
      formattedSql format isAxiosError None sqlError = Inr None)"
proof -
  have a: "formattedSql format isAxiosError (Some q) sqlError =
     (case format (querySQL q) of Inl x \<Rightarrow> Inl x | Inr f \<Rightarrow> Inr (Some f))"
    by (simp add: formattedSql_def)
  have b: "\<exists>s. carriedQuerySQL sqlError = Some s \<and>
           formattedSql format isAxiosError None sqlError =
             (case format s of Inl x \<Rightarrow> Inl x | Inr f \<Rightarrow> Inr (Some f))"
    if t: "isSqlError isAxiosError sqlError = Inr True"
  proof -
    from isSqlError_True_shape [OF t] obtain ps rs ds s where
      "sqlError = JObj ps" "map_of ps ''response'' = Some (JObj rs)"
      "map_of rs ''data'' = Some (JObj ds)" "map_of ds ''querySQL'' = Some (JStr s)"
      by blast
    then have "carriedQuerySQL sqlError = Some s \<and>
           formattedSql format isAxiosError None sqlError =
             (case format s of Inl x \<Rightarrow> Inl x | Inr f \<Rightarrow> Inr (Some f))"
      using t by (simp add: formattedSql_def errorQuerySQL_def carriedQuerySQL_def)
    then show ?thesis by blast
  qed
  have c: "formattedSql format isAxiosError None sqlError = Inr None"
    if "isSqlError isAxiosError sqlError = Inr False"
    using that by (simp add: formattedSql_def)
  from a b c show ?thesis by blast
qed

theorem formattedSql_witness:
  "isSqlError axiosIsAxiosError
     (JObj [(''isAxiosError'', JBool True),
            (''response'', JObj [(''data'', JObj [(''message'', JStr ''bad SQL''),
                                                  (''querySQL'', JStr ''SELEC 1'')])])]
        :: nat jsval) = Inr True \<and>
   formattedSql Inr axiosIsAxiosError None
     (JObj [(''isAxiosError'', JBool True),
            (''response'', JObj [(''data'', JObj [(''message'', JStr ''bad SQL''),
                                                  (''querySQL'', JStr ''SELEC 1'')])])]
        :: nat jsval) = Inr (Some ''SELEC 1'') \<and>
   formattedSql (Inl \<circ> ParseError) axiosIsAxiosError None
     (JObj [(''isAxiosError'', JBool True),
            (''response'', JObj [(''data'', JObj [(''message'', JStr ''bad SQL''),
                                                  (''querySQL'', JStr ''SELEC 1'')])])]
        :: nat jsval) = Inl (ParseError ''SELEC 1'') \<and>
   isSqlError axiosIsAxiosError (JStr ''boom'' :: nat jsval) = Inr False \<and>
   formattedSql Inr axiosIsAxiosError None (JStr ''boom'' :: nat jsval) = Inr None"
proof -
  let ?e = "JObj [(''isAxiosError'', JBool True),
            (''response'', JObj [(''data'', JObj [(''message'', JStr ''bad SQL''),
                                                  (''querySQL'', JStr ''SELEC 1'')])])]
        :: nat jsval"
  let ?b = "JStr ''boom'' :: nat jsval"
  have t: "isSqlError axiosIsAxiosError ?e = Inr True"
    by (simp add: isSqlError_def axiosIsAxiosError_def notNullish_def)
  have f: "isSqlError axiosIsAxiosError ?b = Inr False"
    by (simp add: isSqlError_def axiosIsAxiosError_def)
  have c: "carriedQuerySQL ?e = Some ''SELEC 1''"
    by (simp add: carriedQuerySQL_def)
  from formattedSql_cases [where format = Inr and isAxiosError = axiosIsAxiosError and sqlError = ?e] t
  obtain s where "carriedQuerySQL ?e = Some s"
    and "formattedSql Inr axiosIsAxiosError None ?e =
           (case Inr s of Inl x \<Rightarrow> Inl x | Inr f \<Rightarrow> Inr (Some f))"
    by blast
  with c have ok: "formattedSql Inr axiosIsAxiosError None ?e = Inr (Some ''SELEC 1'')"
    by simp
  from formattedSql_cases
    [where format = "Inl \<circ> ParseError" and isAxiosError = axiosIsAxiosError and sqlError = ?e] t
  obtain s' where "carriedQuerySQL ?e = Some s'"
    and "formattedSql (Inl \<circ> ParseError) axiosIsAxiosError None ?e =
           (case (Inl \<circ> ParseError) s' of Inl x \<Rightarrow> Inl x | Inr f \<Rightarrow> Inr (Some f))"
    by blast
  with c have thrown: "formattedSql (Inl \<circ> ParseError) axiosIsAxiosError None ?e =
      Inl (ParseError ''SELEC 1'')"
    by simp
  from formattedSql_cases [where format = Inr and isAxiosError = axiosIsAxiosError and sqlError = ?b] f
  have none: "formattedSql Inr axiosIsAxiosError None ?b = Inr None"
    by blast
  from t f ok thrown none show ?thesis by simp
qed

text \<open>
  C5 as stated fails: an Axios error whose response body carries a \<open>querySQL\<close> string and
  no \<open>message\<close> gives no formatted SQL, also with a \<open>format\<close> that never throws.
\<close>

theorem querySQL_without_message:
  "carriedQuerySQL
     (JObj [(''isAxiosError'', JBool True),
            (''response'', JObj [(''data'', JObj [(''querySQL'', JStr ''SELECT 1'')])])]
        :: nat jsval) = Some ''SELECT 1'' \<and>
   formattedSql Inr axiosIsAxiosError None
     (JObj [(''isAxiosError'', JBool True),
            (''response'', JObj [(''data'', JObj [(''querySQL'', JStr ''SELECT 1'')])])]
        :: nat jsval) = Inr None"
  by (simp add: carriedQuerySQL_def formattedSql_def isSqlError_def axiosIsAxiosError_def
      notNullish_def)

section \<open>What Chart renders\<close>

text \<open>
  C10. \<open>Chart\<close> renders \<open>null\<close> when the chart data or the rows are nullish. With both
  present and a chart error, it renders the error alert followed by the table, the table
  is the only view shown, and no \<open>Charts\<close> element is rendered.
\<close>

theorem Chart_null_or_error_fallback:
  "Chart tab None chartError flds data = Null \<and>
   Chart tab chartData chartError flds None = Null \<and>
   (notNullish chartError \<longrightarrow>
      Chart tab (Some c) chartError flds (Some r) =
        Fragment [Element ''Alert'' [(''severity'', ''error'')] [ErrorMessage chartError],
                  TableChart ''Table'' ''hi'' r flds] \<and>
      shownViews None (Chart tab (Some c) chartError flds (Some r)) =
        [TableChart ''Table'' ''hi'' r flds] \<and>
      \<not> hasCharts (Chart tab (Some c) chartError flds (Some r)))"
  by (simp add: Chart_def renderTable_def split: option.splits)

theorem Chart_error_witness:
  "notNullish (JStr ''boom'' :: nat jsval) \<and>
   Chart (Some ''visualization'') (Some \<lparr>chartName = ''LineChart'', chartOptions = []\<rparr>)
     (JStr ''boom'' :: nat jsval) None (Some []) =
   Fragment [Element ''Alert'' [(''severity'', ''error'')] [ErrorMessage (JStr ''boom'')],
             TableChart ''Table'' ''hi'' [] None]"
proof -
  have h: "notNullish (JStr ''boom'' :: nat jsval)"
    by (simp add: notNullish_def)
  from Chart_null_or_error_fallback
    [of "Some ''visualization''" "JStr ''boom'' :: nat jsval" None None None
        "\<lparr>chartName = ''LineChart'', chartOptions = []\<rparr>" "[]"] h
  show ?thesis by blast
qed

text \<open>
  What \<open>Chart\<close> renders with chart data, rows and no chart error, for any \<open>tab\<close>: a chart
  named \<open>Table\<close> alone, with no toggle; any other chart below a toggle whose buttons are
  \<open>visualization\<close> and \<open>raw\<close>, in one panel, with the table in the other; the chart is
  shown when \<open>tab\<close> is \<open>visualization\<close>, the table when it is \<open>raw\<close>, and nothing when
  it is \<open>null\<close>.
\<close>

lemma Chart_table_or_tabs:
  assumes "isNullish chartError"
  shows "(chartName c = ''Table'' \<longrightarrow>
            Chart tab (Some c) chartError flds (Some r) = Charts c r flds \<and>
            \<not> hasToggle (Chart tab (Some c) chartError flds (Some r))) \<and>
         (chartName c \<noteq> ''Table'' \<longrightarrow>
            Chart tab (Some c) chartError flds (Some r) =
              Fragment
                [Element ''Controls'' []
                   [ToggleButtonGroup tab
                      [Element ''ToggleButton'' [(''value'', ''visualization'')]
                         [Element ''AutoGraph'' [] []],
                       Element ''ToggleButton'' [(''value'', ''raw'')]
                         [Element ''TableView'' [] []]]],
                 TabContext tab
                   [TabPanel ''visualization'' [Charts c r flds],
                    TabPanel ''raw'' [TableChart ''Table'' ''hi'' r flds]]] \<and>
            shownViews None (Chart tab (Some c) chartError flds (Some r)) =
              (if tab = Some ''visualization'' then [Charts c r flds]
               else if tab = Some ''raw'' then [TableChart ''Table'' ''hi'' r flds]
               else []))"
  using assms
  by (simp add: Chart_def renderTable_def renderChart_def notNullish_def)

text \<open>
  The values \<open>tab\<close> takes: it starts as \<open>visualization\<close>, a change of the chart data sets
  it back, a click on the button that is not selected selects it, and a click on the
  selected button leaves \<open>null\<close>.
\<close>

lemma chartStep_cases:
  "chartStep tab ChartDataChanged = Some ''visualization'' \<and>
   chartStep tab (Click b) = (if tab = Some (buttonValue b) then None else Some (buttonValue b))"
  by (simp add: handleTabChange_def exclusiveChange_def)

lemma chartRun_values:
  "chartRun evs = Some ''visualization'' \<or> chartRun evs = Some ''raw'' \<or> chartRun evs = None"
proof (induction evs rule: rev_induct)
  case Nil
  then show ?case by (simp add: chartRun_def initialTab_def)
next
  case (snoc e evs)
  show ?case
  proof (cases e)
    case ChartDataChanged
    then show ?thesis by (simp add: chartRun_def)
  next
    case (Click b)
    then show ?thesis
      by (cases b) (simp_all add: chartRun_def handleTabChange_def exclusiveChange_def)
  qed
qed

text \<open>
  C6. For a chart that is not named \<open>Table\<close>, with rows and no chart error, exactly one of
  the chart and the table is to be visible at any time. The code breaks this after one
  click on the selected button: the exclusive group passes \<open>null\<close>, \<open>handleTabChange\<close>
  stores it, and neither panel is shown.
\<close>

theorem reclick_selected_button_shows_no_view:
  "exclusiveChange initialTab VisualizationButton = None \<and>
   chartRun [Click VisualizationButton] = None \<and>
   shownViews None
     (Chart (chartRun [Click VisualizationButton])
        (Some \<lparr>chartName = ''LineChart'', chartOptions = []\<rparr>)
        (JUndefined :: nat jsval) None (Some [])) = []"
  by (simp add: chartRun_def initialTab_def handleTabChange_def exclusiveChange_def Chart_def
      renderTable_def renderChart_def notNullish_def)

section \<open>What Suggestions renders\<close>

lemma zip_upt_nth: "zip xs [0..<length xs] = map (\<lambda>i. (xs ! i, i)) [0..<length xs]"
  by (rule nth_equalityI) simp_all

lemma cardHandlers_renderSuggestion:
  "cardHandlers (renderSuggestion question index) = [OnSelect (content question)]"
  by (simp add: renderSuggestion_def)

lemma concat_map_singleton: "concat (map (\<lambda>x. [f x]) xs) = map f xs"
  by (induction xs) simp_all

lemma Suggestions_items:
  "Suggestions =
     Element ''Grid'' [(''container'', ''true'')]
       (map (\<lambda>i. renderSuggestion (questions ! i) i) [0..<length questions])"
  by (simp add: Suggestions_def zip_upt_nth)

lemma cardHandlers_Suggestions:
  "cardHandlers Suggestions = map (\<lambda>q. OnSelect (content q)) questions"
proof -
  have "cardHandlers Suggestions =
          map (\<lambda>i. OnSelect (content (questions ! i))) [0..<length questions]"
    by (simp add: Suggestions_items comp_def cardHandlers_renderSuggestion concat_map_singleton)
  also have "\<dots> = map (\<lambda>q. OnSelect (content q)) questions"
    by (rule nth_equalityI) simp_all
  finally show ?thesis .
qed

lemma length_questions: "length questions = 13"
  by (simp add: questions_def)

text \<open>
  C7. \<open>Suggestions\<close> renders the thirteen predefined questions in the order of their
  declaration, one card each, showing the title of its type and its content; the component has no state and \<open>questions\<close> is a constant,
  so a click changes neither; clicking the \<open>i\<close>-th card calls \<open>onSelect\<close> with the content
  of the \<open>i\<close>-th question.
\<close>

theorem Suggestions_static:
  "length questions = 13 \<and>
   map content questions =
     [''Popular repos related to ChatGPT'',
      ''The most watched Web3 projects'',
      ''Top python projects 2022'',
      ''What is the distribution of primary language used in repositories'',
      ''The closed PR monthly history of GitHub'',
      ''The star history of GitHub all the time'',
      ''Contributor list of @pingcap/tidb'',
      ''Star history of @carbon-language/carbon-lang'',
      ''Projects similar to @facebook/react'',
      ''Top trending HCL repositories of the past month'',
      ''The most watched projects by India developers'',
      ''Where are @kubernetes/kubernetes contributors come from'',
      ''What projects Microsoft developers like to contribute to''] \<and>
   (Suggestions :: 'n node) =
     Element ''Grid'' [(''container'', ''true'')]
       (map (\<lambda>i. renderSuggestion (questions ! i) i) [0..<13]) \<and>
   texts (renderSuggestion question index :: 'n node) =
     [title (types (type' question)), content question] \<and>
   cardHandlers (Suggestions :: 'n node) = map (\<lambda>q. OnSelect (content q)) questions \<and>
   (\<forall>i<13. clickCard i = Some (content (questions ! i)))"
proof -
  have a: "map content questions =
     [''Popular repos related to ChatGPT'',
      ''The most watched Web3 projects'',
      ''Top python projects 2022'',
      ''What is the distribution of primary language used in repositories'',
      ''The closed PR monthly history of GitHub'',
      ''The star history of GitHub all the time'',
      ''Contributor list of @pingcap/tidb'',
      ''Star history of @carbon-language/carbon-lang'',
      ''Projects similar to @facebook/react'',
      ''Top trending HCL repositories of the past month'',
      ''The most watched projects by India developers'',
      ''Where are @kubernetes/kubernetes contributors come from'',
      ''What projects Microsoft developers like to contribute to'']"
    by (simp add: questions_def)
  have b: "(Suggestions :: 'n node) =
     Element ''Grid'' [(''container'', ''true'')]
       (map (\<lambda>i. renderSuggestion (questions ! i) i) [0..<13])"
    using Suggestions_items [where ?'a = 'n] by (simp only: length_questions)
  have c: "clickCard i = Some (content (questions ! i))" if "i < 13" for i
    using that by (simp add: clickCard_def cardHandlers_Suggestions length_questions)
  have d: "texts (renderSuggestion question index :: 'n node) =
     [title (types (type' question)), content question]"
    by (simp add: renderSuggestion_def)
  from a b c d length_questions cardHandlers_Suggestions show ?thesis by blast
qed

theorem Suggestions_click_witness:
  "(12 :: nat) < 13 \<and>
   clickCard 12 = Some ''What projects Microsoft developers like to contribute to'' \<and>
   clickCard 0 = Some ''Popular repos related to ChatGPT''"
proof -
  have c: "\<forall>i<13. clickCard i = Some (content (questions ! i))"
    using Suggestions_static [where ?'n = unit] by blast
  have "clickCard 12 = Some (content (questions ! 12))"
    and "clickCard 0 = Some (content (questions ! 0))"
    using c by simp_all
  then show ?thesis by (simp add: questions_def)
qed

end
